theory Spec2Isabelle
  imports Main "HOL-Library.Word"
begin

section \<open>Plan 9 network interfaces: \<^verbatim>\<open>src/net/interface_plan9.go\<close>\<close>

text \<open>
  The file reads the interface table of a Plan 9 machine out of the \<^verbatim>\<open>ipifc\<close>
  directory of the network pseudo-filesystem. Its four functions are embedded below in
  the order of their dependencies: \<^verbatim>\<open>getInterfaceCount\<close>, \<^verbatim>\<open>readInterface\<close>,
  \<^verbatim>\<open>interfaceTable\<close> and \<^verbatim>\<open>interfaceAddrTable\<close>.

  Go's \<^verbatim>\<open>int\<close> and \<^verbatim>\<open>int64\<close> are 64-bit words (the amd64 port): \<open>+\<close> wraps,
  \<open>sint\<close> reads the two's complement value and \<open><s\<close> is the signed comparison.
  A Go string is a sequence of bytes, as a HOL \<open>string\<close> is.
\<close>

type_synonym goint = "64 word"
type_synonym byte = "8 word"

subsection \<open>Errors\<close>

text \<open>
  Every \<^verbatim>\<open>return nil, err\<close> of the source is a value \<open>Inl e\<close>:
  \<^item> \<open>IOError\<close>: an error handed back by \<^verbatim>\<open>os.Open\<close>, \<^verbatim>\<open>Readdirnames\<close> or
    \<^verbatim>\<open>scanner.Err()\<close> and returned unchanged; its text is the environment's;
  \<^item> \<open>ErrorString\<close>: an error made on the spot with \<^verbatim>\<open>errors.New\<close>;
  \<^item> \<open>AddrError\<close>: the error of \<^verbatim>\<open>ParseMAC\<close>, with the rejected text;
  \<^item> \<open>RuntimePanic\<close>: no return at all but a run-time panic (a slice or an index out
    of range, a negative length given to \<^verbatim>\<open>make\<close>).
\<close>

datatype error =
    IOError string
  | ErrorString string
  | AddrError string
  | RuntimePanic

subsection \<open>The pseudo-filesystem\<close>

text \<open>
  An opened file is described by what the source does with it: the lines a
  \<^verbatim>\<open>bufio.Scanner\<close> delivers from it, the error with which scanning ends once the lines
  are used up (\<open>None\<close> for a plain end of file), and what \<^verbatim>\<open>Readdirnames(-1)\<close> returns
  on it.
\<close>

record os_File =
  lines :: "string list"
  scan_err :: "string option"
  dirnames :: "string + string list"

text \<open>
  The environment of the package. The constant \<^verbatim>\<open>netdir\<close>, \<^verbatim>\<open>filepath.Join\<close>,
  \<^verbatim>\<open>os.Open\<close> and \<^verbatim>\<open>ParseIP\<close> are declared outside this file and are parameters here.
\<close>

record env =
  netdir :: string
  Join :: "string list \<Rightarrow> string"
  os_Open :: "string \<Rightarrow> string + os_File"
  ParseIP :: "string \<Rightarrow> byte list option"

subsection \<open>Library functions used by the file\<close>

text \<open>
  Modelled from the spec: \<^verbatim>\<open>bufio.Scanner\<close> is not in this file. The spec reads
  ``exactly the first line'' of a file, or discards the first line and reads the second.
  \<open>Scan\<close> advances to the next line; when there is none it returns with an empty token
  and the scanner's error is the one the file ends with. So the text of a line that the
  file does not have is the empty string, as the text of an empty line is, and \<open>Err\<close>
  tells an error only once the lines are used up.
\<close>

record scanner =
  pending :: "string list"
  ending :: "string option"
  token :: string
  serr :: "string option"

definition NewScanner :: "os_File \<Rightarrow> scanner" where
  "NewScanner f = \<lparr>pending = lines f, ending = scan_err f, token = [], serr = None\<rparr>"

definition Scan :: "scanner \<Rightarrow> scanner" where
  "Scan s = (case pending s of
      [] \<Rightarrow> s\<lparr>token := [], serr := ending s\<rparr>
    | l # ls \<Rightarrow> s\<lparr>pending := ls, token := l\<rparr>)"

definition Text :: "scanner \<Rightarrow> string" where
  "Text s = token s"

definition Err :: "scanner \<Rightarrow> string option" where
  "Err s = serr s"

text \<open>
  Modelled from the spec: \<^verbatim>\<open>strconv.Itoa\<close> is not in this file; the spec calls its
  result the decimal string of the position. \<open>decimal\<close> writes a natural number in base
  10 without leading zeros; \<open>Itoa\<close> puts a minus sign before the digits of a negative
  value.
\<close>

definition digit_char :: "nat \<Rightarrow> char" where
  "digit_char d = ''0123456789'' ! d"

fun decimal :: "nat \<Rightarrow> string" where
  "decimal n = (if n < 10 then [digit_char n] else decimal (n div 10) @ [digit_char (n mod 10)])"

declare decimal.simps [simp del]

definition Itoa :: "goint \<Rightarrow> string" where
  "Itoa i = (if sint i < 0 then CHR ''-'' # decimal (nat (- sint i)) else decimal (nat (sint i)))"

text \<open>
  Modelled from the spec: \<^verbatim>\<open>strings.Split\<close> is not in this file; the spec splits
  ``on single spaces'' and ``on tabs''. The separator is one character here. The text
  before the first separator is the first field, the text after it is split in the same
  way, and a text without separator is one field, also when it is empty.
\<close>

function Split :: "string \<Rightarrow> char \<Rightarrow> string list" where
  "Split s sep =
     (if sep \<in> set s
      then takeWhile (\<lambda>c. c \<noteq> sep) s # Split (tl (dropWhile (\<lambda>c. c \<noteq> sep) s)) sep
      else [s])"
  by pat_completeness auto
termination
proof (relation "measure (\<lambda>(s, sep). length s)")
  show "wf (measure (\<lambda>(s, sep). length s))" by simp
next
  fix s :: string and sep :: char
  assume "sep \<in> set s"
  then have "dropWhile (\<lambda>c. c \<noteq> sep) s \<noteq> []" by simp
  then have "length (tl (dropWhile (\<lambda>c. c \<noteq> sep) s)) < length (dropWhile (\<lambda>c. c \<noteq> sep) s)"
    by (cases "dropWhile (\<lambda>c. c \<noteq> sep) s") simp_all
  also have "\<dots> \<le> length s" by (rule length_dropWhile_le)
  finally show "((tl (dropWhile (\<lambda>c. c \<noteq> sep) s), sep), (s, sep)) \<in> measure (\<lambda>(s, sep). length s)"
    by simp
qed

declare Split.simps [simp del]

text \<open>
  Modelled from the spec: \<^verbatim>\<open>strconv.ParseInt(s, 10, 64)\<close> is not in this file; the spec
  parses the field ``as a base-10 integer''. An optional sign is followed by at least one
  decimal digit and nothing else, and the value has to fit into 64 bits with sign.
  \<open>None\<close> is the \<^verbatim>\<open>*NumError\<close>, whose kind the caller does not look at.
\<close>

definition is_digit :: "char \<Rightarrow> bool" where
  "is_digit c = (48 \<le> (of_char c :: nat) \<and> (of_char c :: nat) \<le> 57)"

fun parse_digits :: "string \<Rightarrow> nat \<Rightarrow> nat option" where
  "parse_digits [] n = Some n"
| "parse_digits (c # cs) n =
     (if is_digit c then parse_digits cs (n * 10 + (of_char c - 48)) else None)"

definition ParseUint :: "string \<Rightarrow> nat option" where
  "ParseUint s =
     (if s = [] then None
      else case parse_digits s 0 of
             None \<Rightarrow> None
           | Some n \<Rightarrow> if n < 2 ^ 64 then Some n else None)"

definition ParseInt :: "string \<Rightarrow> goint option" where
  "ParseInt s =
     (if s = [] then None
      else let neg = (hd s = CHR ''-'');
               s' = (if hd s = CHR ''+'' \<or> hd s = CHR ''-'' then tl s else s)
           in case ParseUint s' of
                None \<Rightarrow> None
              | Some un \<Rightarrow>
                  if \<not> neg \<and> un \<ge> 2 ^ 63 then None
                  else if neg \<and> un > 2 ^ 63 then None
                  else Some (if neg then - of_nat un else of_nat un))"

text \<open>
  Modelled from the spec: \<^verbatim>\<open>ParseMAC\<close> is not in this file. The spec has a physical
  address of ``exactly 6 colon-separated byte pairs'' of hexadecimal characters, which is
  the one form \<^verbatim>\<open>readInterface\<close> builds; any other text is rejected here.
\<close>

definition hex_val :: "char \<Rightarrow> nat option" where
  "hex_val c =
     (let n = (of_char c :: nat)
      in if 48 \<le> n \<and> n \<le> 57 then Some (n - 48)
         else if 97 \<le> n \<and> n \<le> 102 then Some (n - 87)
         else if 65 \<le> n \<and> n \<le> 70 then Some (n - 55)
         else None)"

definition hex_pair :: "char \<Rightarrow> char \<Rightarrow> byte option" where
  "hex_pair a b =
     (case hex_val a of
        None \<Rightarrow> None
      | Some x \<Rightarrow> (case hex_val b of None \<Rightarrow> None | Some y \<Rightarrow> Some (of_nat (16 * x + y))))"

fun mac_groups :: "string \<Rightarrow> byte list option" where
  "mac_groups [a, b] = map_option (\<lambda>v. [v]) (hex_pair a b)"
| "mac_groups (a # b # c # rest) =
     (if c = CHR '':''
      then (case hex_pair a b of
              None \<Rightarrow> None
            | Some v \<Rightarrow> map_option ((#) v) (mac_groups rest))
      else None)"
| "mac_groups _ = None"

definition ParseMAC :: "string \<Rightarrow> error + byte list" where
  "ParseMAC s =
     (if length s = 17
      then (case mac_groups s of None \<Rightarrow> Inl (AddrError s) | Some hw \<Rightarrow> Inr hw)
      else Inl (AddrError s))"

subsection \<open>The records of package \<^verbatim>\<open>net\<close>\<close>

datatype flag = FlagUp | FlagBroadcast | FlagLoopback | FlagPointToPoint | FlagMulticast

record Interface =
  Index :: goint
  MTU :: goint
  Name :: string
  HardwareAddr :: "byte list"
  Flags :: "flag set"

record IPAddr =
  IP :: "byte list"
  Zone :: string

subsection \<open>\<^verbatim>\<open>getInterfaceCount\<close>\<close>

text \<open>
  The inner \<^verbatim>\<open>for _, name := range names\<close> loop: it stops at the first name equal to
  \<^verbatim>\<open>strconv.Itoa(count)\<close>, sets \<^verbatim>\<open>found\<close> and increments \<^verbatim>\<open>count\<close>. The result is the
  pair of \<^verbatim>\<open>found\<close> and \<^verbatim>\<open>count\<close> after the loop.
\<close>

fun range_names :: "string list \<Rightarrow> goint \<Rightarrow> bool \<times> goint" where
  "range_names [] count = (False, count)"
| "range_names (name # names) count =
     (if name = Itoa count then (True, count + 1) else range_names names count)"

text \<open>
  The outer \<^verbatim>\<open>for { ... }\<close> loop has no bound of its own: it ends when a pass over the
  names finds nothing. It is a partial function, \<open>None\<close> standing for a loop that does
  not end. Where the source returns \<^verbatim>\<open>-1\<close> beside an error, the result here is the
  error alone: the one caller does not look at the count then.
\<close>

partial_function (option) count_loop :: "string list \<Rightarrow> goint \<Rightarrow> goint option" where
  "count_loop names count =
     (case range_names names count of
        (found, count') \<Rightarrow> if \<not> found then Some count' else count_loop names count')"

definition getInterfaceCount :: "env \<Rightarrow> (error + goint) option" where
  "getInterfaceCount env =
     (case os_Open env (Join env [netdir env, ''ipifc'']) of
        Inl e \<Rightarrow> Some (Inl (IOError e))
      | Inr ipifc \<Rightarrow>
          (case dirnames ipifc of
             Inl e \<Rightarrow> Some (Inl (IOError e))
           | Inr names \<Rightarrow> map_option Inr (count_loop names 0)))"

subsection \<open>\<^verbatim>\<open>readInterface\<close>\<close>

text \<open>
  The slice \<^verbatim>\<open>s[lo:hi]\<close> of a string, where the source has checked the length before.
\<close>

definition substr :: "string \<Rightarrow> nat \<Rightarrow> nat \<Rightarrow> string" where
  "substr s lo hi = take (hi - lo) (drop lo s)"

text \<open>
  The expression of lines 88 and 89, which puts the twelve characters of the address file
  into the form that \<^verbatim>\<open>ParseMAC\<close> reads.
\<close>

definition colon_form :: "string \<Rightarrow> string" where
  "colon_form address =
     substr address 0 1 @ substr address 1 2 @ '':'' @
     substr address 2 3 @ substr address 3 4 @ '':'' @
     substr address 4 5 @ substr address 5 6 @ '':'' @
     substr address 6 7 @ substr address 7 8 @ '':'' @
     substr address 8 9 @ substr address 9 10 @ '':'' @
     substr address 10 11 @ substr address 11 12"

text \<open>
  \<^verbatim>\<open>ifaceStatus.Name()\<close> is the path the file was opened with, \<open>statusPath\<close> below.
  The conversion \<^verbatim>\<open>int(mtu)\<close> changes nothing where \<^verbatim>\<open>int\<close> has 64 bits.
\<close>

definition readInterface :: "env \<Rightarrow> goint \<Rightarrow> error + Interface" where
  "readInterface env id' =
     (let index = id' + 1;
          name = Itoa id';
          statusPath = Join env [netdir env, ''ipifc'', name, ''status'']
      in case os_Open env statusPath of
           Inl e \<Rightarrow> Inl (IOError e)
         | Inr ifaceStatus \<Rightarrow>
     (let scanner = Scan (NewScanner ifaceStatus);
          status = Text scanner
      in case Err scanner of
           Some e \<Rightarrow> Inl (IOError e)
         | None \<Rightarrow>
     (let statusData = Split status CHR '' ''
      in if length statusData < 4
         then Inl (ErrorString (''Invalid status file of interface: '' @ statusPath))
         else
     (let device = statusData ! 1;
          mtuStr = statusData ! 3
      in case ParseInt mtuStr of
           None \<Rightarrow> Inl (ErrorString (''Invalid status file of interface: '' @ statusPath))
         | Some mtu \<Rightarrow>
     (case os_Open env (Join env [device, ''addr'']) of
           Inl e \<Rightarrow> Inl (IOError e)
         | Inr deviceAddrFile \<Rightarrow>
     (let scanner = Scan (NewScanner deviceAddrFile);
          address = Text scanner
      in case Err scanner of
           Some e \<Rightarrow> Inl (IOError e)
         | None \<Rightarrow>
           if length address \<noteq> 12
           then Inl (ErrorString ''Interface has invalid hardware address'')
           else (case ParseMAC (colon_form address) of
                   Inl e \<Rightarrow> Inl e
                 | Inr hw \<Rightarrow>
                     Inr \<lparr>Index = index, MTU = mtu, Name = name, HardwareAddr = hw,
                          Flags = {FlagUp, FlagBroadcast, FlagLoopback}\<rparr>)))))))"

subsection \<open>\<^verbatim>\<open>interfaceTable\<close>\<close>

text \<open>
  The loop \<^verbatim>\<open>for idx := 0; idx < numIfc; idx++\<close> over the slice made before it. The
  assignment \<^verbatim>\<open>interfaces[idx] = *ifc\<close> panics outside the slice.
\<close>

function iface_loop :: "env \<Rightarrow> goint \<Rightarrow> goint \<Rightarrow> Interface list \<Rightarrow> error + Interface list" where
  "iface_loop env numIfc idx interfaces =
     (if idx <s numIfc
      then (case readInterface env idx of
              Inl e \<Rightarrow> Inl e
            | Inr ifc \<Rightarrow>
                if 0 \<le> sint idx \<and> nat (sint idx) < length interfaces
                then iface_loop env numIfc (idx + 1) (interfaces[nat (sint idx) := ifc])
                else Inl RuntimePanic)
      else Inr interfaces)"
  by pat_completeness auto
termination
proof (relation "measure (\<lambda>(env, numIfc, idx, interfaces). nat (sint numIfc - sint idx))")
  show "wf (measure (\<lambda>(env, numIfc, idx, interfaces). nat (sint numIfc - sint idx)))"
    by simp
next
  fix env :: env and numIfc idx :: goint and interfaces :: "Interface list" and ifc :: Interface
  assume "idx <s numIfc"
  then have less: "sint idx < sint numIfc" by (simp add: word_sless_alt)
  moreover have "sint numIfc < 2 ^ 63" using sint_lt [of numIfc] by simp
  moreover have "- (2 ^ 63) \<le> sint idx" using sint_ge [of idx] by simp
  ultimately have "signed_take_bit 63 (sint idx + 1) = sint idx + 1"
    by (intro signed_take_bit_int_eq_self) simp_all
  then have "sint (idx + 1) = sint idx + 1" by (simp add: sint_word_ariths)
  with less have "sint numIfc - sint (idx + 1) < sint numIfc - sint idx"
    and "0 < sint numIfc - sint idx" by simp_all
  then show "((env, numIfc, idx + 1, interfaces[nat (sint idx) := ifc]), (env, numIfc, idx, interfaces))
      \<in> measure (\<lambda>(env, numIfc, idx, interfaces). nat (sint numIfc - sint idx))"
    by simp
qed

declare iface_loop.simps [simp del]

text \<open>The zero value of \<^verbatim>\<open>Interface\<close>, with which \<^verbatim>\<open>make\<close> fills the slice.\<close>

definition zero_Interface :: Interface where
  "zero_Interface = \<lparr>Index = 0, MTU = 0, Name = [], HardwareAddr = [], Flags = {}\<rparr>"

definition interfaceTable :: "env \<Rightarrow> goint \<Rightarrow> (error + Interface list) option" where
  "interfaceTable env ifindex =
     (if ifindex = 0
      then (case getInterfaceCount env of
              None \<Rightarrow> None
            | Some (Inl e) \<Rightarrow> Some (Inl e)
            | Some (Inr numIfc) \<Rightarrow>
                Some (if sint numIfc < 0 then Inl RuntimePanic
                      else iface_loop env numIfc 0 (replicate (nat (sint numIfc)) zero_Interface)))
      else Some (case readInterface env ifindex of
                   Inl e \<Rightarrow> Inl e
                 | Inr ifc \<Rightarrow> Inr [ifc]))"

subsection \<open>\<^verbatim>\<open>interfaceAddrTable\<close>\<close>

text \<open>
  The body of the loop over the interfaces, up to the address it stores: the second line
  of the status file, the check of its first character, the two splits and \<^verbatim>\<open>ParseIP\<close>.
  The slice \<^verbatim>\<open>ipline[0:1]\<close> panics on an empty line, and so would the two index
  expressions on an empty list.
\<close>

definition iface_addr :: "env \<Rightarrow> Interface \<Rightarrow> error + IPAddr" where
  "iface_addr env iface =
     (case os_Open env (Join env [netdir env, ''ipifc'', Name iface, ''status'']) of
        Inl e \<Rightarrow> Inl (IOError e)
      | Inr statusFile \<Rightarrow>
     (let scanner = Scan (Scan (NewScanner statusFile))
      in case Err scanner of
           Some e \<Rightarrow> Inl (IOError e)
         | None \<Rightarrow>
     (let ipline = Text scanner
      in if length ipline < 1 then Inl RuntimePanic
         else if substr ipline 0 1 \<noteq> [CHR 0x09]
         then Inl (ErrorString ''Cannot parse IP address for interface'')
         else (case Split ipline (CHR 0x09) of
                 _ # field # _ \<Rightarrow>
                   (case Split field CHR '' '' of
                      ipaddr # _ \<Rightarrow>
                        (case ParseIP env ipaddr of
                           None \<Rightarrow> Inl (ErrorString ''Unable to parse IP address for interface'')
                         | Some ip \<Rightarrow> Inr \<lparr>IP = ip, Zone = []\<rparr>)
                    | [] \<Rightarrow> Inl RuntimePanic)
               | _ \<Rightarrow> Inl RuntimePanic))))"

text \<open>
  The loop \<^verbatim>\<open>for idx, iface := range ifaces\<close>. The slice \<^verbatim>\<open>addresses\<close> holds
  \<^verbatim>\<open>nil\<close>, here \<open>None\<close>, where no address has been stored yet.
\<close>

fun addr_loop :: "env \<Rightarrow> nat \<Rightarrow> Interface list \<Rightarrow> IPAddr option list \<Rightarrow> error + IPAddr option list" where
  "addr_loop env idx [] addresses = Inr addresses"
| "addr_loop env idx (iface # ifaces) addresses =
     (case iface_addr env iface of
        Inl e \<Rightarrow> Inl e
      | Inr addr \<Rightarrow>
          if idx < length addresses
          then addr_loop env (Suc idx) ifaces (addresses[idx := Some addr])
          else Inl RuntimePanic)"

definition interfaceAddrTable :: "env \<Rightarrow> Interface option \<Rightarrow> (error + IPAddr option list) option" where
  "interfaceAddrTable env ifi =
     (case (case ifi of
              None \<Rightarrow> interfaceTable env 0
            | Some i \<Rightarrow> Some (Inr [i])) of
        None \<Rightarrow> None
      | Some (Inl e) \<Rightarrow> Some (Inl e)
      | Some (Inr ifaces) \<Rightarrow> Some (addr_loop env 0 ifaces (replicate (length ifaces) None)))"

subsection \<open>What the claims speak of\<close>

text \<open>
  The path of the status file of the interface called \<open>name\<close>, as both
  \<^verbatim>\<open>readInterface\<close> and \<^verbatim>\<open>interfaceAddrTable\<close> build it.
\<close>

definition status_path :: "env \<Rightarrow> string \<Rightarrow> string" where
  "status_path env name = Join env [netdir env, ''ipifc'', name, ''status'']"

text \<open>
  The first and the second line of the file at a path, as a scanner reads them: \<open>None\<close>
  when the file cannot be opened or scanning ends with an error before the line, the
  empty string when the file ends before the line without error.
\<close>

definition first_line :: "env \<Rightarrow> string \<Rightarrow> string option" where
  "first_line env path =
     (case os_Open env path of
        Inl e \<Rightarrow> None
      | Inr f \<Rightarrow>
          (case lines f of
             l # ls \<Rightarrow> Some l
           | [] \<Rightarrow> (case scan_err f of None \<Rightarrow> Some [] | Some e \<Rightarrow> None)))"

definition second_line :: "env \<Rightarrow> string \<Rightarrow> string option" where
  "second_line env path =
     (case os_Open env path of
        Inl e \<Rightarrow> None
      | Inr f \<Rightarrow>
          (case lines f of
             l # l' # ls \<Rightarrow> Some l'
           | _ \<Rightarrow> (case scan_err f of None \<Rightarrow> Some [] | Some e \<Rightarrow> None)))"

text \<open>
  The spec's words for the hardware address: the consecutive groups of two characters,
  and groups joined by colons.
\<close>

fun groups2 :: "string \<Rightarrow> string list" where
  "groups2 (a # b # rest) = [a, b] # groups2 rest"
| "groups2 rest = []"

fun join_colon :: "string list \<Rightarrow> string" where
  "join_colon [] = []"
| "join_colon [g] = g"
| "join_colon (g # h # gs) = g @ '':'' @ join_colon (h # gs)"



subsection \<open>A machine to run the functions on\<close>

text \<open>
  A filesystem given by a table of paths: a path outside the table cannot be opened.
  \<open>text_file\<close> is a file of lines, \<open>directory\<close> one of names. The paths are joined with
  slashes, \<^verbatim>\<open>netdir\<close> is \<^verbatim>\<open>/net\<close>, and the addresses are IPv4 addresses in dotted
  decimal form, kept as their four bytes.
\<close>

definition text_file :: "string list \<Rightarrow> os_File" where
  "text_file ls = \<lparr>lines = ls, scan_err = None, dirnames = Inl ''not a directory''\<rparr>"

definition directory :: "string list \<Rightarrow> os_File" where
  "directory ns = \<lparr>lines = [], scan_err = Some ''is a directory'', dirnames = Inr ns\<rparr>"

fun slash_join :: "string list \<Rightarrow> string" where
  "slash_join [] = []"
| "slash_join [x] = x"
| "slash_join (x # y # ys) = x @ ''/'' @ slash_join (y # ys)"

definition dotted_quad :: "string \<Rightarrow> byte list option" where
  "dotted_quad s =
     (case map ParseUint (Split s CHR ''.'') of
        [Some a, Some b, Some c, Some d] \<Rightarrow>
          if a < 256 \<and> b < 256 \<and> c < 256 \<and> d < 256
          then Some [of_nat a, of_nat b, of_nat c, of_nat d]
          else None
      | _ \<Rightarrow> None)"

definition plan9 :: "(string \<times> os_File) list \<Rightarrow> env" where
  "plan9 table =
     \<lparr>netdir = ''/net'',
      Join = slash_join,
      os_Open = (\<lambda>path. case map_of table path of
                           None \<Rightarrow> Inl (path @ '': does not exist'')
                         | Some f \<Rightarrow> Inr f),
      ParseIP = dotted_quad\<rparr>"

text \<open>
  A machine with three interfaces, a stray entry \<^verbatim>\<open>5\<close> in the directory, and the
  second interface on the device named by \<open>device1\<close>. Only \<^verbatim>\<open>/net/ether0\<close> has an
  address file.
\<close>

definition status_on :: "string \<Rightarrow> string list" where
  "status_on device =
     [''device '' @ device @ '' maxtu 1500'', CHR 0x09 # ''10.0.0.5 255.255.255.0'']"

definition three_ifcs :: "string \<Rightarrow> (string \<times> os_File) list" where
  "three_ifcs device1 =
     [(''/net/ipifc'', directory [''clone'', ''stats'', ''0'', ''1'', ''2'', ''5'']),
      (''/net/ipifc/0/status'', text_file (status_on ''/net/ether0'')),
      (''/net/ipifc/1/status'', text_file (status_on device1)),
      (''/net/ipifc/2/status'', text_file (status_on ''/net/ether0'')),
      (''/net/ether0/addr'', text_file [''0011223344aa''])]"

text \<open>A machine with one interface, given by its status file and its address file.\<close>

definition one_ifc :: "string list \<Rightarrow> string list \<Rightarrow> (string \<times> os_File) list" where
  "one_ifc status addr =
     [(''/net/ipifc'', directory [''0'', ''clone'', ''stats'']),
      (''/net/ipifc/0/status'', text_file status),
      (''/net/ether0/addr'', text_file addr)]"

text \<open>
  A machine with two interfaces on \<^verbatim>\<open>/net/ether0\<close>. The status file of the first has
  the usual two lines; the second line of the status file of the second is \<open>line1\<close>.
\<close>

definition two_ifcs :: "string \<Rightarrow> (string \<times> os_File) list" where
  "two_ifcs line1 =
     [(''/net/ipifc'', directory [''0'', ''1'', ''clone'', ''stats'']),
      (''/net/ipifc/0/status'', text_file (status_on ''/net/ether0'')),
      (''/net/ipifc/1/status'', text_file [''device /net/ether0 maxtu 1500'', line1]),
      (''/net/ether0/addr'', text_file [''0011223344aa''])]"

text \<open>The record of an interface read from \<^verbatim>\<open>/net/ether0\<close> at position \<open>i\<close>.\<close>

definition ether0_ifc :: "nat \<Rightarrow> goint \<Rightarrow> Interface" where
  "ether0_ifc i mtu =
     \<lparr>Index = of_nat i + 1, MTU = mtu, Name = decimal i,
      HardwareAddr = [0x00, 0x11, 0x22, 0x33, 0x44, 0xaa],
      Flags = {FlagUp, FlagBroadcast, FlagLoopback}\<rparr>"

section \<open>Properties\<close>

subsection \<open>Running the functions on the machine\<close>

lemmas machine_defs = plan9_def three_ifcs_def one_ifc_def two_ifcs_def status_on_def
  text_file_def
  directory_def status_path_def first_line_def second_line_def
lemmas scanner_defs = NewScanner_def Scan_def Text_def Err_def
lemmas Itoa_defs = Itoa_def decimal.simps digit_char_def
lemmas parse_defs = ParseInt_def ParseUint_def is_digit_def ParseMAC_def colon_form_def
  substr_def hex_pair_def hex_val_def

lemma three_count: "getInterfaceCount (plan9 (three_ifcs d)) = Some (Inr 3)"
  by (simp add: machine_defs getInterfaceCount_def count_loop.simps Itoa_defs)

lemma three_read_0: "readInterface (plan9 (three_ifcs d)) 0 = Inr (ether0_ifc 0 1500)"
  by (simp add: machine_defs readInterface_def Let_def scanner_defs Itoa_defs Split.simps
      parse_defs ether0_ifc_def)

lemma three_read_1:
  "readInterface (plan9 (three_ifcs ''/net/ether0'')) 1 = Inr (ether0_ifc 1 1500)"
  by (simp add: machine_defs readInterface_def Let_def scanner_defs Itoa_defs Split.simps
      parse_defs ether0_ifc_def)

lemma three_read_1_lost:
  "readInterface (plan9 (three_ifcs ''/net/ether1'')) 1
     = Inl (IOError ''/net/ether1/addr: does not exist'')"
  by (simp add: machine_defs readInterface_def Let_def scanner_defs Itoa_defs Split.simps
      parse_defs)

lemma three_read_2: "readInterface (plan9 (three_ifcs d)) 2 = Inr (ether0_ifc 2 1500)"
  by (simp add: machine_defs readInterface_def Let_def scanner_defs Itoa_defs Split.simps
      parse_defs ether0_ifc_def)

lemma one_count: "getInterfaceCount (plan9 (one_ifc status addr)) = Some (Inr 1)"
  by (simp add: machine_defs getInterfaceCount_def count_loop.simps Itoa_defs)

lemma one_status_line:
  "first_line (plan9 (one_ifc (l # ls) addr)) (status_path (plan9 (one_ifc (l # ls) addr)) (Itoa 0))
     = Some l"
  by (simp add: machine_defs Itoa_defs)

lemma one_addr_line:
  "first_line (plan9 (one_ifc status [a])) (Join (plan9 (one_ifc status [a])) [''/net/ether0'', ''addr''])
     = Some a"
  by (simp add: machine_defs)

lemma Split_device_line:
  "Split ''device /net/ether0 maxtu 1500'' CHR '' '' = [''device'', ''/net/ether0'', ''maxtu'', ''1500'']"
  by (simp add: Split.simps)

text \<open>
  On the machine with one interface and the usual status line, \<^verbatim>\<open>readInterface\<close> gets
  as far as the address file, whatever its one line is.
\<close>

lemma one_stage:
  "first_line (plan9 (one_ifc [''device /net/ether0 maxtu 1500''] [a]))
     (status_path (plan9 (one_ifc [''device /net/ether0 maxtu 1500''] [a])) (Itoa 0))
     = Some ''device /net/ether0 maxtu 1500''"
  "4 \<le> length (Split ''device /net/ether0 maxtu 1500'' CHR '' '')"
  "ParseInt (Split ''device /net/ether0 maxtu 1500'' CHR '' '' ! 3) = Some 1500"
  "first_line (plan9 (one_ifc [''device /net/ether0 maxtu 1500''] [a]))
     (Join (plan9 (one_ifc [''device /net/ether0 maxtu 1500''] [a]))
        [Split ''device /net/ether0 maxtu 1500'' CHR '' '' ! 1, ''addr''])
     = Some a"
  using one_status_line [of "''device /net/ether0 maxtu 1500''" "[]" "[a]"]
    one_addr_line [of "[''device /net/ether0 maxtu 1500'']" a]
  by (simp_all add: Split_device_line parse_defs)

subsection \<open>Counting the interfaces\<close>

lemma sint_of_nat_small:
  assumes "i < 2 ^ 63"
  shows "sint (of_nat i :: goint) = int i"
proof -
  have "int i < 2 ^ 63"
    using assms by (metis of_nat_less_iff of_nat_numeral of_nat_power)
  then have "signed_take_bit 63 (int i) = int i"
    by (intro signed_take_bit_int_eq_self) simp_all
  moreover have "(of_nat i :: goint) = word_of_int (int i)" by simp
  ultimately show ?thesis by (simp only: sint_sbintrunc') simp
qed

lemma Itoa_of_nat:
  assumes "i < 2 ^ 63"
  shows "Itoa (of_nat i) = decimal i"
  using sint_of_nat_small [OF assms] by (simp add: Itoa_def)

lemma range_names_found: "Itoa c \<in> set names \<Longrightarrow> range_names names c = (True, c + 1)"
  by (induction names) auto

lemma range_names_missing: "Itoa c \<notin> set names \<Longrightarrow> range_names names c = (False, c)"
  by (induction names) auto

text \<open>
  From any counter inside the run the loop climbs to the first missing name and returns
  there. The induction is on the distance to the gap.
\<close>

lemma count_loop_run:
  assumes "\<forall>i<k. Itoa (of_nat i) \<in> set names" and "Itoa (of_nat k) \<notin> set names"
  shows "j \<le> k \<Longrightarrow> count_loop names (of_nat j) = Some (of_nat k)"
proof (induction "k - j" arbitrary: j)
  case 0
  then have "j = k" by simp
  with assms(2) show ?case
    by (subst count_loop.simps) (simp add: range_names_missing)
next
  case (Suc d)
  then have lt: "j < k" and d: "d = k - Suc j" and le: "Suc j \<le> k" by simp_all
  from lt assms(1) have "Itoa (of_nat j) \<in> set names" by simp
  then have "count_loop names (of_nat j) = count_loop names (of_nat (Suc j))"
    by (subst count_loop.simps) (simp add: range_names_found add.commute)
  with Suc.hyps(1) [OF d le] show ?case by simp
qed

text \<open>
  Claim C1. When the listing of the \<^verbatim>\<open>ipifc\<close> directory holds the decimal names of
  \<open>0\<close> up to \<open>k - 1\<close> and not the decimal name of \<open>k\<close>, \<^verbatim>\<open>getInterfaceCount\<close>
  returns \<open>k\<close>, whatever else the listing holds: the loop ends, and it ends at the gap.
  The count is a Go \<^verbatim>\<open>int\<close>, so \<open>k\<close> is below \<open>2 ^ 63\<close>.
\<close>

theorem getInterfaceCount_contiguous_run:
  assumes "os_Open env (Join env [netdir env, ''ipifc'']) = Inr ipifc"
    and "dirnames ipifc = Inr names"
    and "\<forall>i<k. decimal i \<in> set names"
    and "decimal k \<notin> set names"
    and "k < 2 ^ 63"
  shows "getInterfaceCount env = Some (Inr (of_nat k))"
proof -
  have "\<forall>i<k. Itoa (of_nat i) \<in> set names"
    using assms(3,5) by (simp add: Itoa_of_nat)
  moreover have "Itoa (of_nat k) \<notin> set names"
    using assms(4,5) by (simp add: Itoa_of_nat)
  ultimately have "count_loop names (of_nat 0) = Some (of_nat k)"
    by (intro count_loop_run) simp_all
  then show ?thesis
    using assms(1,2) by (simp add: getInterfaceCount_def)
qed

text \<open>The entries \<open>0\<close>, \<open>1\<close>, \<open>2\<close> and \<open>5\<close>, among others, give the count 3.\<close>

theorem getInterfaceCount_contiguous_run_witness:
  "decimal 0 \<in> set [''clone'', ''stats'', ''0'', ''1'', ''2'', ''5'']
   \<and> decimal 1 \<in> set [''clone'', ''stats'', ''0'', ''1'', ''2'', ''5'']
   \<and> decimal 2 \<in> set [''clone'', ''stats'', ''0'', ''1'', ''2'', ''5'']
   \<and> decimal 3 \<notin> set [''clone'', ''stats'', ''0'', ''1'', ''2'', ''5'']
   \<and> getInterfaceCount (plan9 (three_ifcs ''/net/ether0'')) = Some (Inr 3)"
proof -
  let ?names = "[''clone'', ''stats'', ''0'', ''1'', ''2'', ''5'']"
  let ?env = "plan9 (three_ifcs ''/net/ether0'')"
  have opened: "os_Open ?env (Join ?env [netdir ?env, ''ipifc'']) = Inr (directory ?names)"
    by (simp add: machine_defs)
  have listed: "dirnames (directory ?names) = Inr ?names"
    by (simp add: directory_def)
  have run: "\<forall>i<3. decimal i \<in> set ?names"
    by (simp add: decimal.simps digit_char_def All_less_Suc eval_nat_numeral)
  have gap: "decimal 3 \<notin> set ?names"
    by (simp add: decimal.simps digit_char_def)
  have small: "(3::nat) < 2 ^ 63" by simp
  from getInterfaceCount_contiguous_run [OF opened listed run gap small] run gap
  show ?thesis by (simp add: All_less_Suc eval_nat_numeral)
qed

subsection \<open>Reading one interface\<close>

lemma first_line_scan:
  assumes "first_line env path = Some l"
  obtains f where "os_Open env path = Inr f" and "Err (Scan (NewScanner f)) = None"
    and "Text (Scan (NewScanner f)) = l"
  using assms
  by (auto simp: first_line_def scanner_defs split: sum.splits list.splits option.splits)

lemma scan_first_line:
  assumes "os_Open env path = Inr f" and "Err (Scan (NewScanner f)) = None"
  shows "first_line env path = Some (Text (Scan (NewScanner f)))"
  using assms
  by (auto simp: first_line_def scanner_defs split: sum.splits list.splits option.splits)

text \<open>What \<^verbatim>\<open>readInterface\<close> returns once it has read the address file.\<close>

lemma readInterface_address:
  assumes "first_line env (status_path env (Itoa id')) = Some status"
    and "4 \<le> length (Split status CHR '' '')"
    and "ParseInt (Split status CHR '' '' ! 3) = Some mtu"
    and "first_line env (Join env [Split status CHR '' '' ! 1, ''addr'']) = Some address"
  shows "readInterface env id' =
           (if length address \<noteq> 12
            then Inl (ErrorString ''Interface has invalid hardware address'')
            else case ParseMAC (colon_form address) of
                   Inl e \<Rightarrow> Inl e
                 | Inr hw \<Rightarrow>
                     Inr \<lparr>Index = id' + 1, MTU = mtu, Name = Itoa id', HardwareAddr = hw,
                          Flags = {FlagUp, FlagBroadcast, FlagLoopback}\<rparr>)"
proof -
  from assms(1) obtain f where "os_Open env (status_path env (Itoa id')) = Inr f"
    and "Err (Scan (NewScanner f)) = None" and "Text (Scan (NewScanner f)) = status"
    by (rule first_line_scan)
  moreover
  from assms(4) obtain g where "os_Open env (Join env [Split status CHR '' '' ! 1, ''addr'']) = Inr g"
    and "Err (Scan (NewScanner g)) = None" and "Text (Scan (NewScanner g)) = address"
    by (rule first_line_scan)
  ultimately show ?thesis using assms(2,3)
    by (simp add: readInterface_def Let_def status_path_def)
qed

text \<open>What a record returned by \<^verbatim>\<open>readInterface\<close> tells about the files.\<close>

lemma readInterface_success:
  assumes "readInterface env id' = Inr r"
  obtains status address where "first_line env (status_path env (Itoa id')) = Some status"
    and "4 \<le> length (Split status CHR '' '')"
    and "ParseInt (Split status CHR '' '' ! 3) = Some (MTU r)"
    and "first_line env (Join env [Split status CHR '' '' ! 1, ''addr'']) = Some address"
    and "length address = 12"
    and "ParseMAC (colon_form address) = Inr (HardwareAddr r)"
proof -
  from assms obtain f where f: "os_Open env (status_path env (Itoa id')) = Inr f"
    by (auto simp: readInterface_def Let_def status_path_def split: sum.splits)
  from assms f have e: "Err (Scan (NewScanner f)) = None"
    by (auto simp: readInterface_def Let_def status_path_def split: option.splits)
  let ?status = "Text (Scan (NewScanner f))"
  let ?data = "Split ?status CHR '' ''"
  from assms f e have len: "4 \<le> length ?data"
    by (auto simp: readInterface_def Let_def status_path_def split: if_splits)
  from assms f e len obtain mtu where mtu: "ParseInt (?data ! 3) = Some mtu"
    by (cases "ParseInt (?data ! 3)") (auto simp: readInterface_def Let_def status_path_def)
  from assms f e len mtu obtain g where g: "os_Open env (Join env [?data ! 1, ''addr'']) = Inr g"
    by (cases "os_Open env (Join env [?data ! 1, ''addr''])")
      (auto simp: readInterface_def Let_def status_path_def)
  from assms f e len mtu g have e': "Err (Scan (NewScanner g)) = None"
    by (cases "Err (Scan (NewScanner g))") (auto simp: readInterface_def Let_def status_path_def)
  let ?address = "Text (Scan (NewScanner g))"
  from assms f e len mtu g e' have alen: "length ?address = 12"
    by (auto simp: readInterface_def Let_def status_path_def split: if_splits)
  from assms f e len mtu g e' alen
  have "ParseMAC (colon_form ?address) = Inr (HardwareAddr r) \<and> mtu = MTU r"
    by (auto simp: readInterface_def Let_def status_path_def split: sum.splits)
  with that [of ?status ?address] scan_first_line [OF f e] scan_first_line [OF g e'] len mtu alen
  show thesis by simp
qed

lemma readInterface_Index: "readInterface env id' = Inr r \<Longrightarrow> Index r = id' + 1"
  by (auto simp: readInterface_def Let_def split: sum.splits option.splits if_splits)

lemma readInterface_Name: "readInterface env id' = Inr r \<Longrightarrow> Name r = Itoa id'"
  by (auto simp: readInterface_def Let_def split: sum.splits option.splits if_splits)

text \<open>
  Claim C4. A record that \<^verbatim>\<open>readInterface\<close> returns for the position \<open>id\<close> has the
  index \<open>id + 1\<close>, in the arithmetic of Go's \<^verbatim>\<open>int\<close>, and the name
  \<^verbatim>\<open>strconv.Itoa(id)\<close>. For a position that is not negative the name is the decimal
  string of its value, and below the largest \<^verbatim>\<open>int\<close> the index is one more than the
  position as a number too.
\<close>

theorem readInterface_Index_Name:
  assumes "readInterface env id' = Inr r" and "0 \<le> sint id'"
  shows "Index r = id' + 1 \<and> Name r = Itoa id' \<and> Name r = decimal (nat (sint id'))
       \<and> (sint id' < 2 ^ 63 - 1 \<longrightarrow> sint (Index r) = sint id' + 1)"
proof (intro conjI impI)
  show "Index r = id' + 1" using assms(1) by (rule readInterface_Index)
  show "Name r = Itoa id'" using assms(1) by (rule readInterface_Name)
  then show "Name r = decimal (nat (sint id'))" using assms(2) by (simp add: Itoa_def)
  assume "sint id' < 2 ^ 63 - 1"
  moreover have "- (2 ^ 63) \<le> sint id'" using assms(2) by simp
  ultimately have "signed_take_bit 63 (sint id' + 1) = sint id' + 1"
    by (intro signed_take_bit_int_eq_self) simp_all
  then have "sint (id' + 1) = sint id' + 1" by (simp add: sint_word_ariths)
  with \<open>Index r = id' + 1\<close> show "sint (Index r) = sint id' + 1" by simp
qed

text \<open>Position 2 of the machine with three interfaces: index 3 and name \<^verbatim>\<open>2\<close>.\<close>

theorem readInterface_Index_Name_witness:
  "readInterface (plan9 (three_ifcs ''/net/ether0'')) 2 = Inr (ether0_ifc 2 1500)
   \<and> Index (ether0_ifc 2 1500) = 3 \<and> Name (ether0_ifc 2 1500) = ''2''
   \<and> sint (Index (ether0_ifc 2 1500)) = 3"
proof -
  have "0 \<le> sint (2 :: goint)" by simp
  from readInterface_Index_Name [OF three_read_2 [of "''/net/ether0''"] this] three_read_2
  show ?thesis by (simp add: Itoa_defs)
qed

text \<open>
  Claim C9. When the first line of the status file splits on single spaces into fewer than
  four fields, \<^verbatim>\<open>readInterface\<close> fails with the error made by \<^verbatim>\<open>errors.New\<close> whose text
  ends with the path of the status file. That is no error of opening or reading, and the
  result holds no record.
\<close>

theorem readInterface_too_few_fields:
  assumes "first_line env (status_path env (Itoa id')) = Some status"
    and "length (Split status CHR '' '') < 4"
  shows "readInterface env id'
           = Inl (ErrorString (''Invalid status file of interface: '' @ status_path env (Itoa id')))
       \<and> (\<nexists>e. readInterface env id' = Inl (IOError e))
       \<and> (\<nexists>r. readInterface env id' = Inr r)"
proof -
  from assms(1) obtain f where "os_Open env (status_path env (Itoa id')) = Inr f"
    and "Err (Scan (NewScanner f)) = None" and "Text (Scan (NewScanner f)) = status"
    by (rule first_line_scan)
  with assms(2) have "readInterface env id'
      = Inl (ErrorString (''Invalid status file of interface: '' @ status_path env (Itoa id')))"
    by (simp add: readInterface_def Let_def status_path_def)
  then show ?thesis by simp
qed

text \<open>A status line of three fields.\<close>

theorem readInterface_too_few_fields_witness:
  "length (Split ''device /net/ether0 1500'' CHR '' '') = 3
   \<and> readInterface (plan9 (one_ifc [''device /net/ether0 1500''] [''0011223344aa''])) 0
       = Inl (ErrorString ''Invalid status file of interface: /net/ipifc/0/status'')"
proof -
  let ?env = "plan9 (one_ifc [''device /net/ether0 1500''] [''0011223344aa''])"
  have fields: "Split ''device /net/ether0 1500'' CHR '' '' = [''device'', ''/net/ether0'', ''1500'']"
    by (simp add: Split.simps)
  then have short: "length (Split ''device /net/ether0 1500'' CHR '' '') < 4" by simp
  have path: "status_path ?env (Itoa 0) = ''/net/ipifc/0/status''"
    by (simp add: machine_defs Itoa_defs)
  from readInterface_too_few_fields [OF one_status_line short] fields path
  show ?thesis by simp
qed

text \<open>
  Claim C6, as the code has it. The MTU of a returned record is the value
  \<^verbatim>\<open>strconv.ParseInt\<close> reads, base 10 and 64 bits with sign, from the fourth
  space-delimited field of the first status line. When that field does not parse, the
  result is the error whose text ends with the path of the status file.
\<close>

theorem readInterface_MTU:
  assumes "first_line env (status_path env (Itoa id')) = Some status"
  shows "(\<forall>r. readInterface env id' = Inr r
            \<longrightarrow> 4 \<le> length (Split status CHR '' '')
              \<and> ParseInt (Split status CHR '' '' ! 3) = Some (MTU r))
       \<and> (4 \<le> length (Split status CHR '' '') \<and> ParseInt (Split status CHR '' '' ! 3) = None
            \<longrightarrow> readInterface env id'
                  = Inl (ErrorString (''Invalid status file of interface: ''
                                       @ status_path env (Itoa id'))))"
proof (intro conjI allI impI)
  fix r
  assume "readInterface env id' = Inr r"
  then obtain status' where "first_line env (status_path env (Itoa id')) = Some status'"
    and "4 \<le> length (Split status' CHR '' '')"
    and "ParseInt (Split status' CHR '' '' ! 3) = Some (MTU r)"
    by (rule readInterface_success)
  with assms show "4 \<le> length (Split status CHR '' '')"
    and "ParseInt (Split status CHR '' '' ! 3) = Some (MTU r)"
    by simp_all
next
  assume bad: "4 \<le> length (Split status CHR '' '') \<and> ParseInt (Split status CHR '' '' ! 3) = None"
  from assms obtain f where "os_Open env (status_path env (Itoa id')) = Inr f"
    and "Err (Scan (NewScanner f)) = None" and "Text (Scan (NewScanner f)) = status"
    by (rule first_line_scan)
  with bad show "readInterface env id'
      = Inl (ErrorString (''Invalid status file of interface: '' @ status_path env (Itoa id')))"
    by (simp add: readInterface_def Let_def status_path_def)
qed

text \<open>
  The status line \<^verbatim>\<open>device /net/ether0 maxtu 1500\<close> gives the MTU 1500, and the line
  \<^verbatim>\<open>device /net/ether0 maxtu big\<close> the error.
\<close>

theorem readInterface_MTU_witness:
  "readInterface (plan9 (one_ifc [''device /net/ether0 maxtu 1500''] [''0011223344aa''])) 0
     = Inr (ether0_ifc 0 1500)
   \<and> ParseInt ''1500'' = Some (MTU (ether0_ifc 0 1500))
   \<and> ParseInt ''big'' = None
   \<and> readInterface (plan9 (one_ifc [''device /net/ether0 maxtu big''] [''0011223344aa''])) 0
       = Inl (ErrorString ''Invalid status file of interface: /net/ipifc/0/status'')"
proof -
  let ?good = "plan9 (one_ifc [''device /net/ether0 maxtu 1500''] [''0011223344aa''])"
  let ?bad = "plan9 (one_ifc [''device /net/ether0 maxtu big''] [''0011223344aa''])"
  have good: "readInterface ?good 0 = Inr (ether0_ifc 0 1500)"
    by (simp add: machine_defs readInterface_def Let_def scanner_defs Itoa_defs Split.simps
        parse_defs ether0_ifc_def)
  have fields: "Split ''device /net/ether0 maxtu big'' CHR '' ''
                  = [''device'', ''/net/ether0'', ''maxtu'', ''big'']"
    by (simp add: Split.simps)
  have big: "ParseInt ''big'' = None" by (simp add: parse_defs)
  have path: "status_path ?bad (Itoa 0) = ''/net/ipifc/0/status''"
    by (simp add: machine_defs Itoa_defs)
  from readInterface_MTU [OF one_status_line, of "''device /net/ether0 maxtu 1500''" "[]" "[''0011223344aa'']"]
    good
  have "ParseInt (Split ''device /net/ether0 maxtu 1500'' CHR '' '' ! 3) = Some (MTU (ether0_ifc 0 1500))"
    by blast
  moreover
  from readInterface_MTU [OF one_status_line, of "''device /net/ether0 maxtu big''" "[]" "[''0011223344aa'']"]
    fields big path
  have "readInterface ?bad 0 = Inl (ErrorString ''Invalid status file of interface: /net/ipifc/0/status'')"
    by simp
  ultimately show ?thesis using good big by (simp add: Split_device_line)
qed

text \<open>
  Claim C6, as it is written, fails: the field \<^verbatim>\<open>-1500\<close> parses, and the record
  returned has a negative MTU.
\<close>

theorem readInterface_negative_MTU:
  "readInterface (plan9 (one_ifc [''device /net/ether0 maxtu -1500''] [''0011223344aa''])) 0
     = Inr (ether0_ifc 0 (- 1500))
   \<and> sint (MTU (ether0_ifc 0 (- 1500))) = - 1500"
  by (simp add: machine_defs readInterface_def Let_def scanner_defs Itoa_defs Split.simps
      parse_defs ether0_ifc_def)

subsection \<open>The hardware address\<close>

lemma length_12:
  assumes "length (a :: string) = 12"
  obtains c0 c1 c2 c3 c4 c5 c6 c7 c8 c9 c10 c11
  where "a = [c0, c1, c2, c3, c4, c5, c6, c7, c8, c9, c10, c11]"
proof -
  from assms have "length a = Suc (Suc (Suc (Suc (Suc (Suc (Suc (Suc (Suc (Suc (Suc (Suc 0)))))))))))"
    by simp
  then show thesis using that by (auto simp: length_Suc_conv)
qed

lemma colon_form_groups:
  assumes "length address = 12"
  shows "colon_form address = join_colon (groups2 address)"
    and "length (groups2 address) = 6"
    and "\<forall>g\<in>set (groups2 address). length g = 2"
    and "concat (groups2 address) = address"
proof -
  from assms obtain c0 c1 c2 c3 c4 c5 c6 c7 c8 c9 c10 c11
    where a: "address = [c0, c1, c2, c3, c4, c5, c6, c7, c8, c9, c10, c11]"
    by (rule length_12)
  show "colon_form address = join_colon (groups2 address)"
    by (simp add: a colon_form_def substr_def)
  show "length (groups2 address) = 6" by (simp add: a)
  show "\<forall>g\<in>set (groups2 address). length g = 2" by (simp add: a)
  show "concat (groups2 address) = address" by (simp add: a)
qed

text \<open>One character that is no hexadecimal digit makes its pair, and so the address, fail.\<close>

lemma ParseMAC_not_hex:
  assumes "length address = 12" and "\<exists>c\<in>set address. hex_val c = None"
  shows "ParseMAC (colon_form address) = Inl (AddrError (colon_form address))"
proof -
  from assms(1) obtain c0 c1 c2 c3 c4 c5 c6 c7 c8 c9 c10 c11
    where a: "address = [c0, c1, c2, c3, c4, c5, c6, c7, c8, c9, c10, c11]"
    by (rule length_12)
  have form: "colon_form address = [c0, c1, CHR '':'', c2, c3, CHR '':'', c4, c5, CHR '':'',
       c6, c7, CHR '':'', c8, c9, CHR '':'', c10, c11]"
    by (simp add: a colon_form_def substr_def)
  from assms(2) have "hex_pair c0 c1 = None \<or> hex_pair c2 c3 = None \<or> hex_pair c4 c5 = None
      \<or> hex_pair c6 c7 = None \<or> hex_pair c8 c9 = None \<or> hex_pair c10 c11 = None"
    by (auto simp: a hex_pair_def split: option.splits)
  then have "mac_groups (colon_form address) = None"
    unfolding form by (auto split: option.splits)
  then show ?thesis by (simp add: ParseMAC_def)
qed

text \<open>
  Claim C5. For an address line of twelve characters the text handed to \<^verbatim>\<open>ParseMAC\<close>
  is made of the six consecutive groups of two characters of the line, joined by colons.
  What \<^verbatim>\<open>readInterface\<close> then returns is decided by \<^verbatim>\<open>ParseMAC\<close> on that text: its
  error as it is, or the record with the parsed address.
\<close>

theorem colon_form_pairs:
  assumes "length address = 12"
  shows "colon_form address = join_colon (groups2 address)
       \<and> length (groups2 address) = 6
       \<and> (\<forall>g\<in>set (groups2 address). length g = 2)
       \<and> concat (groups2 address) = address
       \<and> (\<forall>env id' status mtu.
            first_line env (status_path env (Itoa id')) = Some status
            \<and> 4 \<le> length (Split status CHR '' '')
            \<and> ParseInt (Split status CHR '' '' ! 3) = Some mtu
            \<and> first_line env (Join env [Split status CHR '' '' ! 1, ''addr'']) = Some address
            \<longrightarrow> readInterface env id'
                  = (case ParseMAC (colon_form address) of
                       Inl e \<Rightarrow> Inl e
                     | Inr hw \<Rightarrow>
                         Inr \<lparr>Index = id' + 1, MTU = mtu, Name = Itoa id', HardwareAddr = hw,
                              Flags = {FlagUp, FlagBroadcast, FlagLoopback}\<rparr>))"
proof (intro conjI allI impI)
  show "colon_form address = join_colon (groups2 address)"
    and "length (groups2 address) = 6"
    and "\<forall>g\<in>set (groups2 address). length g = 2"
    and "concat (groups2 address) = address"
    using assms by (rule colon_form_groups)+
next
  fix env id' status mtu
  assume "first_line env (status_path env (Itoa id')) = Some status
            \<and> 4 \<le> length (Split status CHR '' '')
            \<and> ParseInt (Split status CHR '' '' ! 3) = Some mtu
            \<and> first_line env (Join env [Split status CHR '' '' ! 1, ''addr'']) = Some address"
  then have "first_line env (status_path env (Itoa id')) = Some status"
    and "4 \<le> length (Split status CHR '' '')"
    and "ParseInt (Split status CHR '' '' ! 3) = Some mtu"
    and "first_line env (Join env [Split status CHR '' '' ! 1, ''addr'']) = Some address"
    by blast+
  then have "readInterface env id' =
           (if length address \<noteq> 12
            then Inl (ErrorString ''Interface has invalid hardware address'')
            else case ParseMAC (colon_form address) of
                   Inl e \<Rightarrow> Inl e
                 | Inr hw \<Rightarrow>
                     Inr \<lparr>Index = id' + 1, MTU = mtu, Name = Itoa id', HardwareAddr = hw,
                          Flags = {FlagUp, FlagBroadcast, FlagLoopback}\<rparr>)"
    by (rule readInterface_address)
  with assms show "readInterface env id'
                  = (case ParseMAC (colon_form address) of
                       Inl e \<Rightarrow> Inl e
                     | Inr hw \<Rightarrow>
                         Inr \<lparr>Index = id' + 1, MTU = mtu, Name = Itoa id', HardwareAddr = hw,
                              Flags = {FlagUp, FlagBroadcast, FlagLoopback}\<rparr>)"
    by simp
qed

text \<open>
  The line \<^verbatim>\<open>0011223344aa\<close> becomes \<^verbatim>\<open>00:11:22:33:44:aa\<close> and is parsed into the six
  bytes of the record; the line \<^verbatim>\<open>0011223344zz\<close> becomes \<^verbatim>\<open>00:11:22:33:44:zz\<close>, and
  the error of \<^verbatim>\<open>ParseMAC\<close> on it is the result.
\<close>

theorem colon_form_pairs_witness:
  "length ''0011223344aa'' = 12
   \<and> colon_form ''0011223344aa'' = ''00:11:22:33:44:aa''
   \<and> groups2 ''0011223344aa'' = [''00'', ''11'', ''22'', ''33'', ''44'', ''aa'']
   \<and> ParseMAC ''00:11:22:33:44:aa'' = Inr [0x00, 0x11, 0x22, 0x33, 0x44, 0xaa]
   \<and> readInterface (plan9 (one_ifc [''device /net/ether0 maxtu 1500''] [''0011223344aa''])) 0
       = Inr (ether0_ifc 0 1500)
   \<and> ParseMAC ''00:11:22:33:44:zz'' = Inl (AddrError ''00:11:22:33:44:zz'')
   \<and> readInterface (plan9 (one_ifc [''device /net/ether0 maxtu 1500''] [''0011223344zz''])) 0
       = Inl (AddrError ''00:11:22:33:44:zz'')"
proof -
  have len: "length ''0011223344aa'' = 12" "length ''0011223344zz'' = 12" by simp_all
  have groups: "groups2 ''0011223344aa'' = [''00'', ''11'', ''22'', ''33'', ''44'', ''aa'']"
    and groups': "groups2 ''0011223344zz'' = [''00'', ''11'', ''22'', ''33'', ''44'', ''zz'']"
    by simp_all
  have mac: "ParseMAC ''00:11:22:33:44:aa'' = Inr [0x00, 0x11, 0x22, 0x33, 0x44, 0xaa]"
    and nomac: "ParseMAC ''00:11:22:33:44:zz'' = Inl (AddrError ''00:11:22:33:44:zz'')"
    by (simp_all add: parse_defs)
  note good = colon_form_pairs [OF len(1)]
  note bad = colon_form_pairs [OF len(2)]
  from good groups have form: "colon_form ''0011223344aa'' = ''00:11:22:33:44:aa''" by simp
  from bad groups' have form': "colon_form ''0011223344zz'' = ''00:11:22:33:44:zz''" by simp
  from good [THEN conjunct2, THEN conjunct2, THEN conjunct2, THEN conjunct2, rule_format,
      OF conjI [OF one_stage(1) conjI [OF one_stage(2) conjI [OF one_stage(3) one_stage(4)]]]]
  have "readInterface (plan9 (one_ifc [''device /net/ether0 maxtu 1500''] [''0011223344aa''])) 0
          = Inr (ether0_ifc 0 1500)"
    by (simp add: form mac ether0_ifc_def Itoa_defs)
  moreover
  from bad [THEN conjunct2, THEN conjunct2, THEN conjunct2, THEN conjunct2, rule_format,
      OF conjI [OF one_stage(1) conjI [OF one_stage(2) conjI [OF one_stage(3) one_stage(4)]]]]
  have "readInterface (plan9 (one_ifc [''device /net/ether0 maxtu 1500''] [''0011223344zz''])) 0
          = Inl (AddrError ''00:11:22:33:44:zz'')"
    by (simp add: form' nomac)
  ultimately show ?thesis using len(1) form groups mac nomac by simp
qed

text \<open>
  Claim C8. Once \<^verbatim>\<open>readInterface\<close> has read the first line of the address file, a
  line of any length but twelve gives the error ``Interface has invalid hardware
  address''; a line of twelve characters of which one is no hexadecimal digit passes that
  check and fails in \<^verbatim>\<open>ParseMAC\<close>, whose error is returned.
\<close>

theorem readInterface_hardware_address:
  assumes "first_line env (status_path env (Itoa id')) = Some status"
    and "4 \<le> length (Split status CHR '' '')"
    and "ParseInt (Split status CHR '' '' ! 3) = Some mtu"
    and "first_line env (Join env [Split status CHR '' '' ! 1, ''addr'']) = Some address"
  shows "(length address \<noteq> 12
            \<longrightarrow> readInterface env id' = Inl (ErrorString ''Interface has invalid hardware address''))
       \<and> (length address = 12 \<and> (\<exists>c\<in>set address. hex_val c = None)
            \<longrightarrow> readInterface env id' = Inl (AddrError (colon_form address))
              \<and> ParseMAC (colon_form address) = Inl (AddrError (colon_form address)))"
  using readInterface_address [OF assms] by (auto simp: ParseMAC_not_hex)

text \<open>Address lines of 11 and of 13 characters, and one of 12 that ends in \<^verbatim>\<open>zz\<close>.\<close>

theorem readInterface_hardware_address_witness:
  "readInterface (plan9 (one_ifc [''device /net/ether0 maxtu 1500''] [''0011223344a''])) 0
     = Inl (ErrorString ''Interface has invalid hardware address'')
   \<and> readInterface (plan9 (one_ifc [''device /net/ether0 maxtu 1500''] [''0011223344aab''])) 0
       = Inl (ErrorString ''Interface has invalid hardware address'')
   \<and> hex_val CHR ''z'' = None
   \<and> readInterface (plan9 (one_ifc [''device /net/ether0 maxtu 1500''] [''0011223344zz''])) 0
       = Inl (AddrError ''00:11:22:33:44:zz'')"
proof -
  have z: "hex_val CHR ''z'' = None" by (simp add: hex_val_def)
  have form: "colon_form ''0011223344zz'' = ''00:11:22:33:44:zz''"
    by (simp add: colon_form_def substr_def)
  from readInterface_hardware_address [OF one_stage, of "''0011223344a''"]
  have short: "readInterface (plan9 (one_ifc [''device /net/ether0 maxtu 1500''] [''0011223344a''])) 0
                 = Inl (ErrorString ''Interface has invalid hardware address'')"
    by simp
  from readInterface_hardware_address [OF one_stage, of "''0011223344aab''"]
  have long: "readInterface (plan9 (one_ifc [''device /net/ether0 maxtu 1500''] [''0011223344aab''])) 0
                 = Inl (ErrorString ''Interface has invalid hardware address'')"
    by simp
  from readInterface_hardware_address [OF one_stage, of "''0011223344zz''"] z
  have nonhex: "readInterface (plan9 (one_ifc [''device /net/ether0 maxtu 1500''] [''0011223344zz''])) 0
                 = Inl (AddrError ''00:11:22:33:44:zz'')"
    by (simp add: form)
  from short long z nonhex show ?thesis by simp
qed

subsection \<open>The table of all interfaces\<close>

lemma of_nat_sless:
  assumes "j < n" and "n < 2 ^ 63"
  shows "(of_nat j :: goint) <s of_nat n"
  using assms by (simp add: word_sless_alt sint_of_nat_small)

lemma iface_loop_step:
  assumes "j < n" and "n < 2 ^ 63" and "length xs = n"
    and "readInterface env (of_nat j) = Inr r"
  shows "iface_loop env (of_nat n) (of_nat j) xs
           = iface_loop env (of_nat n) (of_nat (Suc j)) (xs[j := r])"
proof -
  have "sint (of_nat j :: goint) = int j" using assms(1,2) by (simp add: sint_of_nat_small)
  with assms of_nat_sless [OF assms(1,2)] show ?thesis
    by (subst iface_loop.simps) (simp add: add.commute)
qed

lemma iface_loop_stop:
  assumes "n < 2 ^ 63"
  shows "iface_loop env (of_nat n) (of_nat n) xs = Inr xs"
  by (subst iface_loop.simps) (simp add: word_sless_alt)

text \<open>
  The loop from position \<open>j\<close> on, when every read succeeds: the slice keeps what it held
  below \<open>j\<close> and holds the records of \<open>j\<close> up to \<open>n - 1\<close> above, in that order.
\<close>

lemma iface_loop_all:
  assumes "\<forall>i<n. readInterface env (of_nat i) = Inr (f i)" and "n < 2 ^ 63"
  shows "j \<le> n \<Longrightarrow> length xs = n \<Longrightarrow>
         iface_loop env (of_nat n) (of_nat j) xs = Inr (take j xs @ map f [j..<n])"
proof (induction "n - j" arbitrary: j xs)
  case 0
  then show ?case using assms(2) by (simp add: iface_loop_stop)
next
  case (Suc d)
  then have lt: "j < n" and d: "d = n - Suc j" and le: "Suc j \<le> n" by simp_all
  from lt assms(1) have r: "readInterface env (of_nat j) = Inr (f j)" by simp
  have len: "length (xs[j := f j]) = n" using Suc.prems by simp
  have "iface_loop env (of_nat n) (of_nat j) xs
          = iface_loop env (of_nat n) (of_nat (Suc j)) (xs[j := f j])"
    using lt assms(2) Suc.prems(2) r by (rule iface_loop_step)
  also have "\<dots> = Inr (take (Suc j) (xs[j := f j]) @ map f [Suc j..<n])"
    using d le len by (rule Suc.hyps(1))
  also have "take (Suc j) (xs[j := f j]) = take j xs @ [f j]"
    using lt Suc.prems(2) by (simp add: take_Suc_conv_app_nth)
  also have "(take j xs @ [f j]) @ map f [Suc j..<n] = take j xs @ map f [j..<n]"
    using lt by (simp add: upt_conv_Cons)
  finally show ?case .
qed

text \<open>The loop when the read at \<open>m\<close> is the first to fail: its error is the result.\<close>

lemma iface_loop_first_failure:
  assumes "\<forall>i<m. \<exists>r. readInterface env (of_nat i) = Inr r"
    and "readInterface env (of_nat m) = Inl e" and "m < n" and "n < 2 ^ 63"
  shows "j \<le> m \<Longrightarrow> length xs = n \<Longrightarrow> iface_loop env (of_nat n) (of_nat j) xs = Inl e"
proof (induction "m - j" arbitrary: j xs)
  case 0
  then have "j = m" by simp
  with assms(2) of_nat_sless [OF assms(3,4)] show ?case
    by (subst iface_loop.simps) simp
next
  case (Suc d)
  then have lt: "j < m" and d: "d = m - Suc j" and le: "Suc j \<le> m" by simp_all
  from lt assms(1) obtain r where r: "readInterface env (of_nat j) = Inr r" by blast
  have jn: "j < n" using lt assms(3) by simp
  have len: "length (xs[j := r]) = n" using Suc.prems by simp
  have "iface_loop env (of_nat n) (of_nat j) xs
          = iface_loop env (of_nat n) (of_nat (Suc j)) (xs[j := r])"
    using jn assms(4) Suc.prems(2) r by (rule iface_loop_step)
  also have "\<dots> = Inl e"
    using d le len by (rule Suc.hyps(1))
  finally show ?case .
qed

lemma interfaceTable_all:
  assumes "getInterfaceCount env = Some (Inr (of_nat n))" and "n < 2 ^ 63"
  shows "interfaceTable env 0
           = Some (iface_loop env (of_nat n) (of_nat 0) (replicate n zero_Interface))"
  using assms by (simp add: interfaceTable_def sint_of_nat_small)

lemma interfaceTable_all_ok:
  assumes "getInterfaceCount env = Some (Inr (of_nat n))" and "n < 2 ^ 63"
    and "\<forall>i<n. readInterface env (of_nat i) = Inr (f i)"
  shows "interfaceTable env 0 = Some (Inr (map f [0..<n]))"
proof -
  have "iface_loop env (of_nat n) (of_nat 0) (replicate n zero_Interface)
               = Inr (take 0 (replicate n zero_Interface) @ map f [0..<n])"
    using assms(3,2) by (rule iface_loop_all) simp_all
  then show ?thesis by (simp add: interfaceTable_all [OF assms(1,2)])
qed

lemma interfaceTable_first_failure:
  assumes "getInterfaceCount env = Some (Inr (of_nat n))" and "n < 2 ^ 63"
    and "m < n" and "\<forall>i<m. \<exists>r. readInterface env (of_nat i) = Inr r"
    and "readInterface env (of_nat m) = Inl e"
  shows "interfaceTable env 0 = Some (Inl e)"
proof -
  have "iface_loop env (of_nat n) (of_nat 0) (replicate n zero_Interface) = Inl e"
    using assms(4,5,3,2) by (rule iface_loop_first_failure) simp_all
  then show ?thesis by (simp add: interfaceTable_all [OF assms(1,2)])
qed

text \<open>Among the reads that fail there is a first one.\<close>

lemma interfaceTable_some_failure:
  assumes "getInterfaceCount env = Some (Inr (of_nat n))" and "n < 2 ^ 63"
    and "\<exists>i<n. \<exists>e. readInterface env (of_nat i) = Inl e"
  shows "\<exists>e. interfaceTable env 0 = Some (Inl e)"
proof -
  from assms(3) have ex: "\<exists>i. i < n \<and> (\<exists>e. readInterface env (of_nat i) = Inl e)" by blast
  define m where "m = (LEAST i. i < n \<and> (\<exists>e. readInterface env (of_nat i) = Inl e))"
  from ex have m: "m < n \<and> (\<exists>e. readInterface env (of_nat m) = Inl e)"
    unfolding m_def by (rule LeastI_ex)
  then obtain e where e: "readInterface env (of_nat m) = Inl e" by blast
  have before: "\<forall>i<m. \<exists>r. readInterface env (of_nat i) = Inr r"
  proof (intro allI impI)
    fix i assume "i < m"
    then have "\<not> (i < n \<and> (\<exists>e. readInterface env (of_nat i) = Inl e))"
      unfolding m_def by (rule not_less_Least)
    moreover have "i < n" using \<open>i < m\<close> m by simp
    ultimately have "\<nexists>e. readInterface env (of_nat i) = Inl e" by simp
    then show "\<exists>r. readInterface env (of_nat i) = Inr r"
      by (cases "readInterface env (of_nat i)") auto
  qed
  from assms(1,2) m before e have "interfaceTable env 0 = Some (Inl e)"
    by (intro interfaceTable_first_failure [where m = m and n = n]) simp_all
  then show ?thesis by blast
qed

text \<open>
  Claim C3. Let \<^verbatim>\<open>getInterfaceCount\<close> return \<open>n\<close>. With the selector 0, when the reads
  of the positions \<open>0\<close> up to \<open>n - 1\<close> all succeed, \<^verbatim>\<open>interfaceTable\<close> returns their
  records in the order of the positions. When a read fails, the call returns an error and
  no list: the error of the first read that fails.
\<close>

theorem interfaceTable_zero:
  assumes "getInterfaceCount env = Some (Inr (of_nat n))" and "n < 2 ^ 63"
  shows "((\<forall>i<n. readInterface env (of_nat i) = Inr (f i))
            \<longrightarrow> interfaceTable env 0 = Some (Inr (map f [0..<n])))
       \<and> (\<forall>m e. m < n \<and> (\<forall>i<m. \<exists>r. readInterface env (of_nat i) = Inr r)
                   \<and> readInterface env (of_nat m) = Inl e
            \<longrightarrow> interfaceTable env 0 = Some (Inl e))
       \<and> ((\<exists>i<n. \<exists>e. readInterface env (of_nat i) = Inl e)
            \<longrightarrow> (\<exists>e. interfaceTable env 0 = Some (Inl e)))"
proof (intro conjI impI allI)
  assume "\<forall>i<n. readInterface env (of_nat i) = Inr (f i)"
  with assms show "interfaceTable env 0 = Some (Inr (map f [0..<n]))"
    by (rule interfaceTable_all_ok)
next
  fix m e
  assume "m < n \<and> (\<forall>i<m. \<exists>r. readInterface env (of_nat i) = Inr r)
            \<and> readInterface env (of_nat m) = Inl e"
  then have "m < n" and "\<forall>i<m. \<exists>r. readInterface env (of_nat i) = Inr r"
    and "readInterface env (of_nat m) = Inl e"
    by blast+
  with assms show "interfaceTable env 0 = Some (Inl e)"
    by (rule interfaceTable_first_failure)
next
  assume "\<exists>i<n. \<exists>e. readInterface env (of_nat i) = Inl e"
  with assms show "\<exists>e. interfaceTable env 0 = Some (Inl e)"
    by (rule interfaceTable_some_failure)
qed

text \<open>
  Three entries that can be read give the records with the indices 1, 2 and 3 in that
  order. When the address file of the device of entry 1 is missing, the call fails with
  the error of opening it.
\<close>

theorem interfaceTable_zero_witness:
  "getInterfaceCount (plan9 (three_ifcs ''/net/ether0'')) = Some (Inr 3)
   \<and> interfaceTable (plan9 (three_ifcs ''/net/ether0'')) 0
       = Some (Inr [ether0_ifc 0 1500, ether0_ifc 1 1500, ether0_ifc 2 1500])
   \<and> map Index [ether0_ifc 0 1500, ether0_ifc 1 1500, ether0_ifc 2 1500] = [1, 2, 3]
   \<and> getInterfaceCount (plan9 (three_ifcs ''/net/ether1'')) = Some (Inr 3)
   \<and> readInterface (plan9 (three_ifcs ''/net/ether1'')) 1
       = Inl (IOError ''/net/ether1/addr: does not exist'')
   \<and> interfaceTable (plan9 (three_ifcs ''/net/ether1'')) 0
       = Some (Inl (IOError ''/net/ether1/addr: does not exist''))"
proof -
  let ?good = "plan9 (three_ifcs ''/net/ether0'')"
  let ?lost = "plan9 (three_ifcs ''/net/ether1'')"
  have count: "getInterfaceCount (plan9 (three_ifcs d)) = Some (Inr (of_nat 3))" for d
    by (simp add: three_count)
  have small: "(3::nat) < 2 ^ 63" by simp
  have reads: "\<forall>i<3. readInterface ?good (of_nat i) = Inr (ether0_ifc i 1500)"
    by (simp add: All_less_Suc eval_nat_numeral three_read_0
        three_read_1 [simplified eval_nat_numeral] three_read_2 [simplified eval_nat_numeral])
  from interfaceTable_zero [OF count small, of "''/net/ether0''" "\<lambda>i. ether0_ifc i 1500"] reads
  have "interfaceTable ?good 0 = Some (Inr (map (\<lambda>i. ether0_ifc i 1500) [0..<3]))"
    by blast
  then have good: "interfaceTable ?good 0
      = Some (Inr [ether0_ifc 0 1500, ether0_ifc 1 1500, ether0_ifc 2 1500])"
    by (simp add: upt_rec eval_nat_numeral)
  have first: "(1::nat) < 3 \<and> (\<forall>i<1. \<exists>r. readInterface ?lost (of_nat i) = Inr r)
      \<and> readInterface ?lost (of_nat 1) = Inl (IOError ''/net/ether1/addr: does not exist'')"
    by (simp add: three_read_0 three_read_1_lost)
  from interfaceTable_zero [OF count small, of "''/net/ether1''"] first
  have lost: "interfaceTable ?lost 0 = Some (Inl (IOError ''/net/ether1/addr: does not exist''))"
    by blast
  from good lost three_count three_read_1_lost show ?thesis
    by (simp add: ether0_ifc_def)
qed

lemma nonneg_word_of_nat:
  assumes "\<not> sint (w :: goint) < 0"
  obtains n where "w = of_nat n" and "n < 2 ^ 63"
proof
  have "(of_nat (nat (sint w)) :: goint) = word_of_int (sint w)"
    using assms by simp
  then show "w = of_nat (nat (sint w))" by simp
  have "sint w < 2 ^ 63" using sint_lt [of w] by simp
  then show "nat (sint w) < 2 ^ 63" using assms by (simp add: nat_less_iff)
qed

text \<open>Every record of a full table was read at a position below the largest \<^verbatim>\<open>int\<close>.\<close>

lemma full_listing_member:
  assumes "interfaceTable env 0 = Some (Inr rs)" and "r \<in> set rs"
  obtains i where "Suc i < 2 ^ 63" and "readInterface env (of_nat i) = Inr r"
proof -
  from assms(1) obtain numIfc where count: "getInterfaceCount env = Some (Inr numIfc)"
    and nonneg: "\<not> sint numIfc < 0"
    by (auto simp: interfaceTable_def split: option.splits sum.splits if_splits)
  from nonneg obtain n where n: "numIfc = of_nat n" "n < 2 ^ 63"
    by (rule nonneg_word_of_nat)
  have count': "getInterfaceCount env = Some (Inr (of_nat n))" using count n by simp
  have "\<not> (\<exists>i<n. \<exists>e. readInterface env (of_nat i) = Inl e)"
    using interfaceTable_some_failure [OF count' n(2)] assms(1) by auto
  then have ok: "\<forall>i<n. readInterface env (of_nat i) = Inr (projr (readInterface env (of_nat i)))"
    by (metis sum.collapse(2) sum.exhaust_disc isl_def)
  from interfaceTable_all_ok [OF count' n(2) ok] assms(1)
  have "rs = map (\<lambda>i. projr (readInterface env (of_nat i))) [0..<n]" by simp
  with assms(2) obtain i where "i < n" and "r = projr (readInterface env (of_nat i))"
    by auto
  with ok n(2) that [of i] show thesis by simp
qed

lemma of_nat_Suc_nonzero:
  assumes "Suc i < 2 ^ 63"
  shows "(of_nat i + 1 :: goint) \<noteq> 0"
proof -
  have "sint (of_nat (Suc i) :: goint) = int (Suc i)"
    using assms by (rule sint_of_nat_small)
  then have "(of_nat (Suc i) :: goint) \<noteq> 0" by auto
  then show ?thesis by (simp add: add.commute)
qed

text \<open>
  Claim C7. A selector \<open>k\<close> other than 0 goes to \<^verbatim>\<open>readInterface\<close> as it is, as a
  position: the call returns the error of that read, or the one record of it, whose index
  is \<open>k + 1\<close> and whose name is \<^verbatim>\<open>strconv.Itoa(k)\<close>. So the index of a record of the full
  table, given as selector, is not 0 and selects the position after the record's own: a
  record with the next index, not the record itself.
\<close>

theorem interfaceTable_selector:
  assumes "k \<noteq> 0"
  shows "interfaceTable env k
           = Some (case readInterface env k of Inl e \<Rightarrow> Inl e | Inr ifc \<Rightarrow> Inr [ifc])
       \<and> (\<forall>rs. interfaceTable env k = Some (Inr rs)
            \<longrightarrow> (\<exists>ifc. rs = [ifc] \<and> Index ifc = k + 1 \<and> Name ifc = Itoa k))
       \<and> (\<forall>listing ifc. interfaceTable env 0 = Some (Inr listing) \<and> ifc \<in> set listing
            \<longrightarrow> Index ifc \<noteq> 0
              \<and> interfaceTable env (Index ifc)
                  = Some (case readInterface env (Index ifc) of
                            Inl e \<Rightarrow> Inl e
                          | Inr ifc' \<Rightarrow> Inr [ifc'])
              \<and> (\<forall>ifc'. readInterface env (Index ifc) = Inr ifc'
                    \<longrightarrow> Index ifc' = Index ifc + 1 \<and> Index ifc' \<noteq> Index ifc \<and> ifc' \<noteq> ifc))"
proof (intro conjI allI impI)
  show one: "interfaceTable env k
           = Some (case readInterface env k of Inl e \<Rightarrow> Inl e | Inr ifc \<Rightarrow> Inr [ifc])"
    using assms by (simp add: interfaceTable_def)
  fix rs
  assume "interfaceTable env k = Some (Inr rs)"
  with one obtain ifc where "readInterface env k = Inr ifc" and "rs = [ifc]"
    by (cases "readInterface env k") auto
  then show "\<exists>ifc. rs = [ifc] \<and> Index ifc = k + 1 \<and> Name ifc = Itoa k"
    by (simp add: readInterface_Index readInterface_Name)
next
  fix listing ifc
  assume "interfaceTable env 0 = Some (Inr listing) \<and> ifc \<in> set listing"
  then obtain i where i: "Suc i < 2 ^ 63" and r: "readInterface env (of_nat i) = Inr ifc"
    by (blast elim: full_listing_member)
  from r have idx: "Index ifc = of_nat i + 1" by (rule readInterface_Index)
  with i show nz: "Index ifc \<noteq> 0" by (simp add: of_nat_Suc_nonzero)
  then show "interfaceTable env (Index ifc)
                  = Some (case readInterface env (Index ifc) of
                            Inl e \<Rightarrow> Inl e
                          | Inr ifc' \<Rightarrow> Inr [ifc'])"
    by (simp add: interfaceTable_def)
  fix ifc'
  assume "readInterface env (Index ifc) = Inr ifc'"
  then have "Index ifc' = Index ifc + 1" by (rule readInterface_Index)
  then show "Index ifc' = Index ifc + 1" and "Index ifc' \<noteq> Index ifc" and "ifc' \<noteq> ifc"
    by auto
qed

text \<open>
  On the machine with three interfaces the selector 1 returns the record with index 2 and
  name \<^verbatim>\<open>1\<close>, and not the first record of the full table, which has the index 1.
\<close>

theorem interfaceTable_selector_witness:
  "interfaceTable (plan9 (three_ifcs ''/net/ether0'')) 1 = Some (Inr [ether0_ifc 1 1500])
   \<and> Index (ether0_ifc 1 1500) = 2 \<and> Name (ether0_ifc 1 1500) = ''1''
   \<and> interfaceTable (plan9 (three_ifcs ''/net/ether0'')) 0
       = Some (Inr [ether0_ifc 0 1500, ether0_ifc 1 1500, ether0_ifc 2 1500])
   \<and> Index (ether0_ifc 0 1500) = 1
   \<and> interfaceTable (plan9 (three_ifcs ''/net/ether0'')) (Index (ether0_ifc 0 1500))
       = Some (Inr [ether0_ifc 1 1500])"
proof -
  let ?env = "plan9 (three_ifcs ''/net/ether0'')"
  have one: "(1 :: goint) \<noteq> 0" by simp
  have idx: "Index (ether0_ifc 0 1500) = 1" "Index (ether0_ifc 1 1500) = 2"
    and name: "Name (ether0_ifc 1 1500) = ''1''"
    by (simp_all add: ether0_ifc_def decimal.simps digit_char_def)
  have reads: "\<forall>i<3. readInterface ?env (of_nat i) = Inr (ether0_ifc i 1500)"
    by (simp add: All_less_Suc eval_nat_numeral three_read_0
        three_read_1 [simplified eval_nat_numeral] three_read_2 [simplified eval_nat_numeral])
  have "interfaceTable ?env 0 = Some (Inr (map (\<lambda>i. ether0_ifc i 1500) [0..<3]))"
    using three_count [of "''/net/ether0''"] reads by (intro interfaceTable_all_ok) simp_all
  then have full: "interfaceTable ?env 0
      = Some (Inr [ether0_ifc 0 1500, ether0_ifc 1 1500, ether0_ifc 2 1500])"
    by (simp add: upt_rec eval_nat_numeral)
  from interfaceTable_selector [OF one, of ?env] three_read_1
  have sel: "interfaceTable ?env 1 = Some (Inr [ether0_ifc 1 1500])" by simp
  with idx name full show ?thesis by simp
qed

subsection \<open>The table of addresses\<close>

lemma second_line_scan:
  assumes "second_line env path = Some l"
  obtains f where "os_Open env path = Inr f" and "Err (Scan (Scan (NewScanner f))) = None"
    and "Text (Scan (Scan (NewScanner f))) = l"
  using assms
  by (auto simp: second_line_def scanner_defs split: sum.splits list.splits option.splits)





text \<open>An empty second line: the slice \<^verbatim>\<open>ipline[0:1]\<close> is out of range.\<close>

lemma iface_addr_empty:
  assumes "second_line env (status_path env (Name iface)) = Some []"
  shows "iface_addr env iface = Inl RuntimePanic"
proof -
  from assms obtain f where f: "os_Open env (status_path env (Name iface)) = Inr f"
    and e: "Err (Scan (Scan (NewScanner f))) = None"
    and t: "Text (Scan (Scan (NewScanner f))) = []"
    by (rule second_line_scan)
  then show ?thesis
    by (simp add: iface_addr_def status_path_def)
qed



lemma one_read:
  "readInterface (plan9 (one_ifc (''device /net/ether0 maxtu 1500'' # ls) [''0011223344aa''])) 0
     = Inr (ether0_ifc 0 1500)"
  by (simp add: machine_defs readInterface_def Let_def scanner_defs Itoa_defs Split.simps
      parse_defs ether0_ifc_def)

lemma one_table:
  "interfaceTable (plan9 (one_ifc (''device /net/ether0 maxtu 1500'' # ls) [''0011223344aa''])) 0
     = Some (Inr [ether0_ifc 0 1500])"
proof -
  let ?env = "plan9 (one_ifc (''device /net/ether0 maxtu 1500'' # ls) [''0011223344aa''])"
  have "getInterfaceCount ?env = Some (Inr (of_nat 1))" by (simp add: one_count)
  moreover have "(1::nat) < 2 ^ 63" by simp
  moreover have "\<forall>i<1. readInterface ?env (of_nat i) = Inr (ether0_ifc i 1500)"
    by (simp add: one_read)
  ultimately have "interfaceTable ?env 0 = Some (Inr (map (\<lambda>i. ether0_ifc i 1500) [0..<1]))"
    by (rule interfaceTable_all_ok)
  then show ?thesis by simp
qed

lemma one_second_line:
  "second_line (plan9 (one_ifc [l, l'] addr))
     (status_path (plan9 (one_ifc [l, l'] addr)) (Name (ether0_ifc 0 mtu))) = Some l'"
  by (simp add: machine_defs ether0_ifc_def decimal.simps digit_char_def)





text \<open>
  Claim C2, at an input where the code does not do what the claim says. The status file
  of the one interface has an empty second line. \<^verbatim>\<open>interfaceAddrTable\<close> slices the
  line before it looks at its length, and panics.
\<close>

theorem interfaceAddrTable_empty_line_panics:
  "interfaceAddrTable
     (plan9 (one_ifc [''device /net/ether0 maxtu 1500'', ''''] [''0011223344aa''])) None
     = Some (Inl RuntimePanic)"
proof -
  let ?env = "plan9 (one_ifc [''device /net/ether0 maxtu 1500'', ''''] [''0011223344aa''])"
  have "iface_addr ?env (ether0_ifc 0 1500) = Inl RuntimePanic"
    using one_second_line by (rule iface_addr_empty)
  then show ?thesis
    by (simp add: interfaceAddrTable_def one_table)
qed















end
